theory Spec2Isabelle
  imports Main
begin

section \<open>The AirQ authentication backend\<close>

text \<open>
  The backend is one Express application with three handlers over one Mongoose collection
  of users: \<^verbatim>\<open>POST /api/auth/register\<close>, \<^verbatim>\<open>POST /api/auth/login\<close> and
  \<^verbatim>\<open>GET /api/auth/me\<close>. Each handler is embedded as a function from the user store and
  the request to the response and the store afterwards. Text is ASCII text. A request to
  register or to log in carries a body that \<^verbatim>\<open>express.json()\<close> has parsed; a field of a
  registration body is either absent or a JSON string, a field of a login body is any
  value the parser can produce. An ObjectId is a number here.
  The database is there and answers every query, with its unique indexes on \<^verbatim>\<open>_id\<close> and
  \<^verbatim>\<open>email\<close> built. The messages of Mongoose's validation errors are the library's
  documented texts.
\<close>

subsection \<open>Strings as JavaScript treats them\<close>

definition is_space :: "char \<Rightarrow> bool" where
  \<comment> \<open>the ASCII characters \<^verbatim>\<open>String.prototype.trim\<close> strips: TAB, LF, VT, FF, CR, SPACE\<close>
  "is_space c = (let n = (of_char c :: nat) in (9 \<le> n \<and> n \<le> 13) \<or> n = 32)"

definition trim :: "string \<Rightarrow> string" where
  "trim s = rev (dropWhile is_space (rev (dropWhile is_space s)))"

definition lower_char :: "char \<Rightarrow> char" where
  \<comment> \<open>the letters A to Z go to a to z, every other ASCII character stays\<close>
  "lower_char c =
     (case map_of (zip ''ABCDEFGHIJKLMNOPQRSTUVWXYZ'' ''abcdefghijklmnopqrstuvwxyz'') c of
        Some l \<Rightarrow> l
      | None \<Rightarrow> c)"

definition toLowerCase :: "string \<Rightarrow> string" where
  "toLowerCase s = map lower_char s"

fun split_on :: "char \<Rightarrow> string \<Rightarrow> string list" where
  \<comment> \<open>\<^verbatim>\<open>s.split(c)\<close> for a one-character separator: never an empty array\<close>
  "split_on c [] = [[]]"
| "split_on c (x # xs) =
     (if x = c then [] # split_on c xs
      else (case split_on c xs of [] \<Rightarrow> [[x]] | p # ps \<Rightarrow> (x # p) # ps))"

definition index_opt :: "'a list \<Rightarrow> nat \<Rightarrow> 'a option" where
  \<comment> \<open>\<^verbatim>\<open>xs[i]\<close>: \<^verbatim>\<open>undefined\<close> out of range\<close>
  "index_opt xs i = (if i < length xs then Some (xs ! i) else None)"

definition truthy :: "string option \<Rightarrow> bool" where
  \<comment> \<open>\<^verbatim>\<open>undefined\<close> and the empty string are the falsy values of an optional string\<close>
  "truthy v = (case v of None \<Rightarrow> False | Some s \<Rightarrow> s \<noteq> [])"

subsection \<open>The values of a parsed JSON body\<close>

text \<open>
  A number is given by an integer: the handlers look only at whether it is zero, and hand
  it on to the libraries.
\<close>

datatype jsvalue =
    JSUndefined
  | JSNull
  | JSBoolean bool
  | JSNumber int
  | JSString string
  | JSArray "jsvalue list"
  | JSObject "(string \<times> jsvalue) list"

fun js_truthy :: "jsvalue \<Rightarrow> bool" where
  \<comment> \<open>what \<^verbatim>\<open>!v\<close> negates: \<^verbatim>\<open>undefined\<close>, \<^verbatim>\<open>null\<close>, \<^verbatim>\<open>false\<close>, \<^verbatim>\<open>0\<close> and \<^verbatim>\<open>""\<close> are falsy\<close>
  "js_truthy JSUndefined = False"
| "js_truthy JSNull = False"
| "js_truthy (JSBoolean b) = b"
| "js_truthy (JSNumber n) = (n \<noteq> 0)"
| "js_truthy (JSString s) = (s \<noteq> [])"
| "js_truthy (JSArray vs) = True"
| "js_truthy (JSObject kvs) = True"

fun typeof :: "jsvalue \<Rightarrow> string" where
  "typeof JSUndefined = ''undefined''"
| "typeof JSNull = ''object''"
| "typeof (JSBoolean b) = ''boolean''"
| "typeof (JSNumber n) = ''number''"
| "typeof (JSString s) = ''string''"
| "typeof (JSArray vs) = ''object''"
| "typeof (JSObject kvs) = ''object''"

type_synonym jbody = "string \<Rightarrow> jsvalue"

definition json_body :: "(string \<times> jsvalue) list \<Rightarrow> jbody" where
  \<comment> \<open>the body with these fields; reading any other field gives \<^verbatim>\<open>undefined\<close>\<close>
  "json_body kvs k = (case map_of kvs k of None \<Rightarrow> JSUndefined | Some v \<Rightarrow> v)"

subsection \<open>Data\<close>

type_synonym oid = nat

record user =
  uid :: oid
  firstName :: string
  lastName :: string
  email :: string
  password :: string
  role :: string
  createdAt :: nat
  updatedAt :: nat

type_synonym store = "user list"

type_synonym body = "string \<Rightarrow> string option"

datatype jvalue =
    JBool bool
  | JStr string
  | JOid oid
  | JObj "(string \<times> jvalue) list"

record response =
  status :: nat
  json :: jvalue

datatype timespan = Days nat

fun seconds :: "timespan \<Rightarrow> nat" where
  "seconds (Days n) = n * 86400"

record jwt_payload =
  p_id :: oid
  p_role :: string

datatype decoded_id =
    ObjectId oid
  | NotObjectId jsvalue

text \<open>
  The \<^verbatim>\<open>id\<close> of a decoded token as \<^verbatim>\<open>User.findById\<close> reads it: an ObjectId, or a value
  that is none (\<^verbatim>\<open>undefined\<close> when the payload has no id). The server secret is a constant
  of the source, so a token that verifies need not be one the service signed.
\<close>

record jwt_claims =
  c_id :: decoded_id
  c_role :: string
  c_iat :: nat
  c_exp :: nat

datatype mongo_error = DupId oid | DupEmail string

datatype error =
    ValidationError "(string \<times> string) list"
  | MongoServerError mongo_error

subsection \<open>The libraries the handlers call, and what each request finds around it\<close>

text \<open>
  bcryptjs, jsonwebtoken and the MongoDB driver are not part of the repository: their
  functions are parameters of the model. \<open>bcrypt_hash pw cost salt\<close> is
  \<^verbatim>\<open>bcrypt.hash(pw, cost)\<close> with the salt it drew; \<open>jwt_sign payload secret expiresIn now\<close>
  and \<open>jwt_verify token secret now\<close> are \<^verbatim>\<open>jwt.sign\<close> and \<^verbatim>\<open>jwt.verify\<close> at clock
  \<open>now\<close> (milliseconds), the latter returning \<open>Inl message\<close> where the library throws;
  \<open>setters_on_query\<close> says whether Mongoose applies a path's setters to a query filter
  on that path, which depends on its version; \<open>mongo_message\<close> is the text of the
  driver's duplicate-key error. \<open>cast_filter v\<close> is what Mongoose makes of a filter
  \<^verbatim>\<open>{ email: v }\<close> whose value is not a string: a cast error (\<open>Inl\<close> its message) or a
  condition on the stored email (a number cast to text, a query operator);
  \<open>cast_message v\<close> is the message of the cast error for an id \<open>v\<close> that is no ObjectId.
\<close>

record libs =
  bcrypt_hash :: "string \<Rightarrow> nat \<Rightarrow> string \<Rightarrow> string"
  bcrypt_compare :: "string \<Rightarrow> string \<Rightarrow> bool"
  jwt_sign :: "jwt_payload \<Rightarrow> string \<Rightarrow> timespan \<Rightarrow> nat \<Rightarrow> string"
  jwt_verify :: "string \<Rightarrow> string \<Rightarrow> nat \<Rightarrow> string + jwt_claims"
  setters_on_query :: bool
  mongo_message :: "mongo_error \<Rightarrow> string"
  cast_filter :: "jsvalue \<Rightarrow> string + (string \<Rightarrow> bool)"
  cast_message :: "jsvalue \<Rightarrow> string"

record env =
  now :: nat
  new_id :: oid
  salt :: string

definition JWT_SECRET :: string where
  "JWT_SECRET = ''your_jwt_secret_key''"

subsection \<open>The user schema\<close>

definition set_name :: "string \<Rightarrow> string" where
  \<comment> \<open>\<^verbatim>\<open>firstName\<close>, \<^verbatim>\<open>lastName\<close>: \<^verbatim>\<open>trim: true\<close>\<close>
  "set_name s = trim s"

definition set_email :: "string \<Rightarrow> string" where
  \<comment> \<open>\<^verbatim>\<open>email\<close>: \<^verbatim>\<open>lowercase: true, trim: true\<close>\<close>
  "set_email s = toLowerCase (trim s)"

definition check_required :: "string \<Rightarrow> string \<Rightarrow> string option \<Rightarrow> (string \<times> string) + string" where
  \<comment> \<open>\<^verbatim>\<open>required: [true, msg]\<close>: an absent or empty string fails with \<open>msg\<close>\<close>
  "check_required path msg v =
     (case v of
        None \<Rightarrow> Inl (path, msg)
      | Some s \<Rightarrow> if s = [] then Inl (path, msg) else Inr s)"

definition minlength_message :: "string \<Rightarrow> string \<Rightarrow> string \<Rightarrow> string" where
  \<comment> \<open>Mongoose's default text for a string below \<^verbatim>\<open>minlength\<close>: it names the path, quotes the
      value and prints the bound\<close>
  "minlength_message path v bound =
     ''Path `'' @ path @ ''` (`'' @ v @ ''`) is shorter than the minimum allowed length (''
       @ bound @ '').''"

definition check_password :: "string option \<Rightarrow> (string \<times> string) + string" where
  \<comment> \<open>\<^verbatim>\<open>required\<close>, then \<^verbatim>\<open>minlength: 5\<close>, on the plaintext\<close>
  "check_password v =
     (case check_required ''password'' ''Please provide a password'' v of
        Inl e \<Rightarrow> Inl e
      | Inr p \<Rightarrow>
          if length p < 5 then Inl (''password'', minlength_message ''password'' p ''5'')
          else Inr p)"

fun lefts :: "('a + 'b) list \<Rightarrow> 'a list" where
  "lefts [] = []"
| "lefts (Inl e # rs) = e # lefts rs"
| "lefts (Inr _ # rs) = lefts rs"

fun join :: "string \<Rightarrow> string list \<Rightarrow> string" where
  "join sep [] = []"
| "join sep [s] = s"
| "join sep (s # t # ss) = s @ sep @ join sep (t # ss)"

definition error_message :: "libs \<Rightarrow> error \<Rightarrow> string" where
  \<comment> \<open>\<^verbatim>\<open>error.message\<close>\<close>
  "error_message L e =
     (case e of
        ValidationError errs \<Rightarrow>
          ''User validation failed: '' @ join '', '' (map (\<lambda>(path, msg). path @ '': '' @ msg) errs)
      | MongoServerError m \<Rightarrow> mongo_message L m)"

definition pre_save :: "libs \<Rightarrow> env \<Rightarrow> bool \<Rightarrow> user \<Rightarrow> user" where
  \<comment> \<open>\<^verbatim>\<open>userSchema.pre('save')\<close>; the flag is \<^verbatim>\<open>this.isModified('password')\<close>\<close>
  "pre_save L e modified u =
     (if \<not> modified then u else u\<lparr>password := bcrypt_hash L (password u) 10 (salt e)\<rparr>)"

definition comparePassword :: "libs \<Rightarrow> user \<Rightarrow> jsvalue \<Rightarrow> string + bool" where
  \<comment> \<open>\<^verbatim>\<open>bcrypt.compare(candidatePassword, this.password)\<close>: bcryptjs rejects, with this
      message, a candidate that is not a string; the stored password is one\<close>
  "comparePassword L u candidatePassword =
     (case candidatePassword of
        JSString s \<Rightarrow> Inr (bcrypt_compare L s (password u))
      | _ \<Rightarrow> Inl (''Illegal arguments: '' @ typeof candidatePassword @ '', string''))"

definition generateAuthToken :: "libs \<Rightarrow> env \<Rightarrow> user \<Rightarrow> string" where
  "generateAuthToken L e u =
     jwt_sign L \<lparr>p_id = uid u, p_role = role u\<rparr> JWT_SECRET (Days 30) (now e)"

subsection \<open>The model's queries\<close>

definition findOne_email :: "libs \<Rightarrow> store \<Rightarrow> string option \<Rightarrow> user option" where
  \<comment> \<open>\<^verbatim>\<open>User.findOne({ email: v })\<close>: the first stored user whose email is the filter's value.
      Every stored user has an email, so a filter on \<^verbatim>\<open>undefined\<close> finds none. Login adds
      \<^verbatim>\<open>.select('+password')\<close>, registration only tests the result.\<close>
  "findOne_email L db v =
     (case v of
        None \<Rightarrow> None
      | Some s \<Rightarrow> find (\<lambda>u. email u = (if setters_on_query L then set_email s else s)) db)"

definition findOne_filter :: "libs \<Rightarrow> store \<Rightarrow> jsvalue \<Rightarrow> string + user option" where
  \<comment> \<open>\<^verbatim>\<open>User.findOne({ email: v })\<close> for any value \<open>v\<close>: a string is looked up as above,
      another value as Mongoose casts it, which can throw\<close>
  "findOne_filter L db v =
     (case v of
        JSString s \<Rightarrow> Inr (findOne_email L db (Some s))
      | _ \<Rightarrow>
          (case cast_filter L v of
             Inl msg \<Rightarrow> Inl msg
           | Inr matches \<Rightarrow> Inr (find (\<lambda>u. matches (email u)) db)))"

definition findById :: "libs \<Rightarrow> store \<Rightarrow> decoded_id \<Rightarrow> string + user option" where
  \<comment> \<open>\<^verbatim>\<open>User.findById(id)\<close>: no id (\<^verbatim>\<open>undefined\<close>, \<^verbatim>\<open>null\<close>) finds no user, any other value
      that is no ObjectId makes the cast throw. The password is not selected, and
      \<^verbatim>\<open>/me\<close> reads none.\<close>
  "findById L db i =
     (case i of
        ObjectId n \<Rightarrow> Inr (find (\<lambda>u. uid u = n) db)
      | NotObjectId v \<Rightarrow>
          if v = JSUndefined \<or> v = JSNull then Inr None else Inl (cast_message L v))"

definition User_create ::
  "libs \<Rightarrow> env \<Rightarrow> store \<Rightarrow> string option \<Rightarrow> string option \<Rightarrow> string option \<Rightarrow> string option
     \<Rightarrow> error + (user \<times> store)" where
  \<comment> \<open>\<^verbatim>\<open>User.create({firstName, lastName, email, password})\<close>: setters and defaults, then
      validation in the order of the paths, then the save hook, then the insert under the
      unique indexes on \<^verbatim>\<open>_id\<close> and \<^verbatim>\<open>email\<close>. The role is the schema's default, which
      is in its \<^verbatim>\<open>enum\<close>; the handler passes no other.\<close>
  "User_create L e db fn ln em pw =
     (let r1 = check_required ''firstName'' ''Please provide your first name'' (map_option set_name fn);
          r2 = check_required ''lastName'' ''Please provide your last name'' (map_option set_name ln);
          r3 = check_required ''email'' ''Please provide your email'' (map_option set_email em);
          r4 = check_password pw
      in case (r1, r2, r3, r4) of
           (Inr f, Inr l, Inr m, Inr p) \<Rightarrow>
             (let doc = pre_save L e True
                          \<lparr>uid = new_id e, firstName = f, lastName = l, email = m, password = p,
                           role = ''user'', createdAt = now e, updatedAt = now e\<rparr>
              in if \<exists>u \<in> set db. uid u = uid doc then Inl (MongoServerError (DupId (uid doc)))
                 else if \<exists>u \<in> set db. email u = email doc
                   then Inl (MongoServerError (DupEmail (email doc)))
                 else Inr (doc, db @ [doc]))
         | _ \<Rightarrow> Inl (ValidationError (lefts [r1, r2, r3, r4])))"

subsection \<open>The handlers\<close>

definition public_fields :: "user \<Rightarrow> jvalue" where
  \<comment> \<open>the \<^verbatim>\<open>user\<close> object every successful response carries\<close>
  "public_fields u =
     JObj [(''id'', JOid (uid u)), (''firstName'', JStr (firstName u)),
           (''lastName'', JStr (lastName u)), (''email'', JStr (email u)),
           (''role'', JStr (role u))]"

definition failure :: "nat \<Rightarrow> string \<Rightarrow> response" where
  "failure code msg =
     \<lparr>status = code, json = JObj [(''success'', JBool False), (''message'', JStr msg)]\<rparr>"

definition server_error :: "string \<Rightarrow> response" where
  \<comment> \<open>the \<^verbatim>\<open>catch\<close> branch all three handlers share\<close>
  "server_error msg =
     \<lparr>status = 500,
      json = JObj [(''success'', JBool False), (''message'', JStr ''Server error''),
                   (''error'', JStr msg)]\<rparr>"

definition register :: "libs \<Rightarrow> env \<Rightarrow> store \<Rightarrow> body \<Rightarrow> response \<times> store" where
  "register L e db b =
     (case findOne_email L db (b ''email'') of
        Some existingUser \<Rightarrow> (failure 400 ''Email is already registered'', db)
      | None \<Rightarrow>
          (case User_create L e db (b ''firstName'') (b ''lastName'') (b ''email'') (b ''password'') of
             Inl error \<Rightarrow> (server_error (error_message L error), db)
           | Inr (newUser, db') \<Rightarrow>
               (let token = generateAuthToken L e newUser
                in (\<lparr>status = 201,
                     json = JObj [(''success'', JBool True), (''token'', JStr token),
                                  (''user'', public_fields newUser)]\<rparr>, db'))))"

definition login :: "libs \<Rightarrow> env \<Rightarrow> store \<Rightarrow> jbody \<Rightarrow> response \<times> store" where
  "login L e db b =
     (if \<not> js_truthy (b ''email'') \<or> \<not> js_truthy (b ''password'')
      then (failure 400 ''Please provide email and password'', db)
      else
        (case findOne_filter L db (b ''email'') of
           Inl msg \<Rightarrow> (server_error msg, db)
         | Inr None \<Rightarrow> (failure 401 ''Invalid email or password'', db)
         | Inr (Some u) \<Rightarrow>
             (case comparePassword L u (b ''password'') of
                Inl msg \<Rightarrow> (server_error msg, db)
              | Inr False \<Rightarrow> (failure 401 ''Invalid email or password'', db)
              | Inr True \<Rightarrow>
                  (let token = generateAuthToken L e u
                   in (\<lparr>status = 200,
                        json = JObj [(''success'', JBool True), (''token'', JStr token),
                                     (''user'', public_fields u)]\<rparr>, db)))))"

definition bearer_token :: "string option \<Rightarrow> string option" where
  \<comment> \<open>\<^verbatim>\<open>req.headers.authorization?.split(' ')[1]\<close>\<close>
  "bearer_token h = (case h of None \<Rightarrow> None | Some s \<Rightarrow> index_opt (split_on CHR '' '' s) 1)"

definition me :: "libs \<Rightarrow> env \<Rightarrow> store \<Rightarrow> string option \<Rightarrow> response \<times> store" where
  "me L e db authorization =
     (case bearer_token authorization of
        None \<Rightarrow> (failure 401 ''Not authorized to access this route'', db)
      | Some token \<Rightarrow>
          if token = [] then (failure 401 ''Not authorized to access this route'', db)
          else
            (case jwt_verify L token JWT_SECRET (now e) of
               Inl msg \<Rightarrow> (server_error msg, db)
             | Inr decoded \<Rightarrow>
                 (case findById L db (c_id decoded) of
                    Inl msg \<Rightarrow> (server_error msg, db)
                  | Inr None \<Rightarrow> (failure 404 ''User not found'', db)
                  | Inr (Some u) \<Rightarrow>
                      (\<lparr>status = 200,
                        json = JObj [(''success'', JBool True), (''user'', public_fields u)]\<rparr>,
                       db))))"

subsection \<open>Runs of the service\<close>

datatype request = Register body | Login jbody | Me "string option"

definition handle :: "libs \<Rightarrow> env \<Rightarrow> store \<Rightarrow> request \<Rightarrow> response \<times> store" where
  "handle L e db rq =
     (case rq of
        Register b \<Rightarrow> register L e db b
      | Login b \<Rightarrow> login L e db b
      | Me h \<Rightarrow> me L e db h)"

text \<open>
  The stores the service can be in: it starts with no user, and each request is handled
  in whatever the clock, the id generator and the salt source give it.
\<close>

inductive reachable :: "libs \<Rightarrow> store \<Rightarrow> bool" for L :: libs where
  start: "reachable L []"
| request: "reachable L db \<Longrightarrow> reachable L (snd (handle L e db rq))"

subsection \<open>Reading a response\<close>

fun field :: "string \<Rightarrow> jvalue \<Rightarrow> jvalue option" where
  "field k (JObj kvs) = map_of kvs k"
| "field k _ = None"

fun keys :: "jvalue \<Rightarrow> string list" where
  "keys (JObj kvs) = map fst kvs"
| "keys _ = []"

definition is_bool :: "jvalue option \<Rightarrow> bool" where
  "is_bool v = (case v of Some (JBool _) \<Rightarrow> True | _ \<Rightarrow> False)"

definition envelope :: "string list \<Rightarrow> jvalue \<Rightarrow> bool" where
  \<comment> \<open>an object with a boolean \<^verbatim>\<open>success\<close> whose other keys are among \<open>optional\<close>\<close>
  "envelope optional j =
     (is_bool (field ''success'' j) \<and> ''success'' \<in> set (keys j) \<and>
      list_all (\<lambda>k. k \<in> set (''success'' # optional)) (keys j))"

subsection \<open>What the handlers rely on in jsonwebtoken\<close>

text \<open>
  A token verifies under the secret it was signed with, until its expiry, to the payload
  with the issue and expiry times in seconds; under another secret or from the expiry
  on, verification throws.
\<close>

definition jwt_contract :: "libs \<Rightarrow> bool" where
  "jwt_contract L =
     (\<forall>p k d t0 k' t.
        if k' = k \<and> t div 1000 < t0 div 1000 + seconds d
        then jwt_verify L (jwt_sign L p k d t0) k' t =
               Inr \<lparr>c_id = ObjectId (p_id p), c_role = p_role p, c_iat = t0 div 1000,
                    c_exp = t0 div 1000 + seconds d\<rparr>
        else isl (jwt_verify L (jwt_sign L p k d t0) k' t))"

subsection \<open>An instance of the libraries, to run the handlers on concrete requests\<close>

definition unary :: "nat \<Rightarrow> string" where
  "unary n = replicate n CHR ''1'' @ ''.''"

definition read_unary :: "string \<Rightarrow> (nat \<times> string) option" where
  "read_unary s =
     (case dropWhile (\<lambda>c. c = CHR ''1'') s of
        [] \<Rightarrow> None
      | c # r \<Rightarrow>
          if c = CHR ''.'' then Some (length (takeWhile (\<lambda>c. c = CHR ''1'') s), r) else None)"

definition demo_sign :: "jwt_payload \<Rightarrow> string \<Rightarrow> timespan \<Rightarrow> nat \<Rightarrow> string" where
  "demo_sign p k d t =
     unary (p_id p) @ unary (t div 1000) @ unary (t div 1000 + seconds d)
       @ unary (length (p_role p)) @ p_role p @ k"

definition demo_foreign :: "string \<Rightarrow> string \<Rightarrow> string" where
  \<comment> \<open>a token with the payload \<^verbatim>\<open>{ id: v }\<close> for a text \<open>v\<close>, signed under \<open>k\<close> by anyone\<close>
  "demo_foreign v k = ''!'' @ unary (length v) @ v @ k"

definition demo_verify_own :: "string \<Rightarrow> string \<Rightarrow> nat \<Rightarrow> string + jwt_claims" where
  "demo_verify_own tok k t =
     (case read_unary tok of
        None \<Rightarrow> Inl ''jwt malformed''
      | Some (i, s1) \<Rightarrow>
     (case read_unary s1 of
        None \<Rightarrow> Inl ''jwt malformed''
      | Some (iat, s2) \<Rightarrow>
     (case read_unary s2 of
        None \<Rightarrow> Inl ''jwt malformed''
      | Some (ex, s3) \<Rightarrow>
     (case read_unary s3 of
        None \<Rightarrow> Inl ''jwt malformed''
      | Some (n, s4) \<Rightarrow>
          if length s4 < n then Inl ''jwt malformed''
          else if drop n s4 \<noteq> k then Inl ''invalid signature''
          else if ex \<le> t div 1000 then Inl ''jwt expired''
          else Inr \<lparr>c_id = ObjectId i, c_role = take n s4, c_iat = iat, c_exp = ex\<rparr>))))"

definition demo_verify_foreign :: "string \<Rightarrow> string \<Rightarrow> string + jwt_claims" where
  "demo_verify_foreign tok k =
     (case read_unary tok of
        None \<Rightarrow> Inl ''jwt malformed''
      | Some (n, s) \<Rightarrow>
          if length s < n then Inl ''jwt malformed''
          else if drop n s \<noteq> k then Inl ''invalid signature''
          else Inr \<lparr>c_id = NotObjectId (JSString (take n s)), c_role = [], c_iat = 0,
                    c_exp = 0\<rparr>)"

definition demo_verify :: "string \<Rightarrow> string \<Rightarrow> nat \<Rightarrow> string + jwt_claims" where
  "demo_verify tok k t =
     (case tok of
        [] \<Rightarrow> Inl ''jwt malformed''
      | c # r \<Rightarrow> if c = CHR ''!'' then demo_verify_foreign r k else demo_verify_own tok k t)"

definition demo_libs :: libs where
  "demo_libs =
     \<lparr>bcrypt_hash = (\<lambda>pw cost s. ''$2a$'' @ s @ ''$'' @ pw),
      bcrypt_compare = (\<lambda>candidate h. length candidate < length h \<and>
                          drop (length h - Suc (length candidate)) h = CHR ''$'' # candidate),
      jwt_sign = demo_sign,
      jwt_verify = demo_verify,
      setters_on_query = True,
      mongo_message = (\<lambda>m. ''E11000 duplicate key error''),
      cast_filter = (\<lambda>v. Inl ''Cast to string failed''),
      cast_message = (\<lambda>v. ''Cast to ObjectId failed'')\<rparr>"

definition demo_env :: env where
  "demo_env = \<lparr>now = 5000, new_id = 1, salt = ''salt''\<rparr>"

definition alice :: body where
  "alice = map_of [(''firstName'', '' Alice ''), (''lastName'', ''Liddell''),
                   (''email'', ''Alice@Example.com''), (''password'', ''rabbit-hole''),
                   (''role'', ''admin'')]"

definition alice_login :: jbody where
  "alice_login = json_body [(''email'', JSString ''ALICE@example.com''),
                            (''password'', JSString ''rabbit-hole'')]"

definition alice_user :: user where
  "alice_user =
     \<lparr>uid = 1, firstName = ''Alice'', lastName = ''Liddell'', email = ''alice@example.com'',
      password = ''$2a$salt$rabbit-hole'', role = ''user'', createdAt = 5000, updatedAt = 5000\<rparr>"

subsection \<open>What every stored user satisfies\<close>

definition store_inv :: "store \<Rightarrow> bool" where
  "store_inv db = (\<forall>u \<in> set db. role u = ''user'' \<and> set_email (email u) = email u)"

section \<open>Properties\<close>

subsection \<open>Trimming and lower-casing\<close>

lemma last_dropWhile_nonempty: "dropWhile P ys \<noteq> [] \<Longrightarrow> last (dropWhile P ys) = last ys"
  by (induction ys) (auto split: if_splits)

lemma strip_ends:
  assumes "xs \<noteq> []" "\<not> P (hd xs)"
  shows "dropWhile P xs = xs"
    and "dropWhile P (rev xs) \<noteq> []"
    and "hd (rev (dropWhile P (rev xs))) = hd xs"
proof -
  show "dropWhile P xs = xs" using assms by (cases xs) auto
  have "hd xs \<in> set (rev xs)" using assms by simp
  then show ne: "dropWhile P (rev xs) \<noteq> []" using assms(2) by (auto simp: dropWhile_eq_Nil_conv)
  have "last (dropWhile P (rev xs)) = last (rev xs)" using ne by (rule last_dropWhile_nonempty)
  then show "hd (rev (dropWhile P (rev xs))) = hd xs"
    using ne assms(1) by (simp add: hd_rev last_rev)
qed

lemma dropWhile_rev_fixed:
  assumes "dropWhile P xs = xs"
  shows "dropWhile P (rev (dropWhile P (rev xs))) = rev (dropWhile P (rev xs))"
proof (cases "xs = []")
  case True
  then show ?thesis by simp
next
  case False
  then have h: "\<not> P (hd xs)" using assms by (metis dropWhile_eq_self_iff)
  let ?t = "rev (dropWhile P (rev xs))"
  have "?t \<noteq> []" using strip_ends(2)[of xs P] False h by simp
  moreover have "\<not> P (hd ?t)" using strip_ends(3)[of xs P] False h by simp
  ultimately show ?thesis by (rule strip_ends(1))
qed

lemma trim_idem: "trim (trim s) = trim s"
proof -
  let ?t = "dropWhile is_space s"
  have a: "dropWhile is_space ?t = ?t" by simp
  have "dropWhile is_space (trim s) = trim s"
    unfolding trim_def by (rule dropWhile_rev_fixed[OF a])
  then show ?thesis by (simp add: trim_def)
qed

lemma is_space_lower_char: "is_space (lower_char c) = is_space c"
  by (simp add: lower_char_def is_space_def)

lemma trim_toLowerCase: "trim (toLowerCase s) = toLowerCase (trim s)"
  by (simp add: trim_def toLowerCase_def dropWhile_map rev_map comp_def is_space_lower_char)

lemma lower_char_idem: "lower_char (lower_char c) = lower_char c"
  by (simp add: lower_char_def)

lemma toLowerCase_idem: "toLowerCase (toLowerCase s) = toLowerCase s"
  by (simp add: toLowerCase_def lower_char_idem)

lemma set_email_idem: "set_email (set_email s) = set_email s"
  by (simp add: set_email_def trim_toLowerCase trim_idem toLowerCase_idem)

subsection \<open>User.create\<close>

lemma check_required_Inr:
  "check_required path msg v = Inr s \<longleftrightarrow> v = Some s \<and> s \<noteq> []"
  by (auto simp: check_required_def split: option.splits)

lemma check_password_Inr:
  "check_password v = Inr p \<longleftrightarrow> v = Some p \<and> 5 \<le> length p"
  by (auto simp: check_password_def check_required_def split: option.splits sum.splits)

lemma User_create_Inr:
  "User_create L e db fn ln em pw = Inr (u, db') \<longleftrightarrow>
     (\<exists>f l m p. fn = Some f \<and> trim f \<noteq> [] \<and> ln = Some l \<and> trim l \<noteq> [] \<and>
        em = Some m \<and> set_email m \<noteq> [] \<and> pw = Some p \<and> 5 \<le> length p \<and>
        (\<forall>x \<in> set db. uid x \<noteq> new_id e) \<and> (\<forall>x \<in> set db. email x \<noteq> set_email m) \<and>
        u = \<lparr>uid = new_id e, firstName = trim f, lastName = trim l, email = set_email m,
             password = bcrypt_hash L p 10 (salt e), role = ''user'',
             createdAt = now e, updatedAt = now e\<rparr> \<and>
        db' = db @ [u])"
  (is "?lhs = ?rhs")
proof
  assume ?lhs
  then obtain f l m p where r:
    "check_required ''firstName'' ''Please provide your first name'' (map_option set_name fn) = Inr f"
    "check_required ''lastName'' ''Please provide your last name'' (map_option set_name ln) = Inr l"
    "check_required ''email'' ''Please provide your email'' (map_option set_email em) = Inr m"
    "check_password pw = Inr p"
    by (auto simp: User_create_def Let_def split: sum.splits)
  with \<open>?lhs\<close> show ?rhs
    by (auto simp: User_create_def Let_def pre_save_def check_required_Inr check_password_Inr
          set_name_def split: if_splits)
next
  assume ?rhs
  then show ?lhs
    by (auto simp: User_create_def Let_def pre_save_def check_required_def check_password_def
          set_name_def)
qed

lemma register_cases:
  obtains (conflict) u where "findOne_email L db (b ''email'') = Some u"
      "register L e db b = (failure 400 ''Email is already registered'', db)"
  | (error) err where "findOne_email L db (b ''email'') = None"
      "User_create L e db (b ''firstName'') (b ''lastName'') (b ''email'') (b ''password'') = Inl err"
      "register L e db b = (server_error (error_message L err), db)"
  | (created) u db' where "findOne_email L db (b ''email'') = None"
      "User_create L e db (b ''firstName'') (b ''lastName'') (b ''email'') (b ''password'') = Inr (u, db')"
      "register L e db b =
         (\<lparr>status = 201,
           json = JObj [(''success'', JBool True), (''token'', JStr (generateAuthToken L e u)),
                        (''user'', public_fields u)]\<rparr>, db')"
proof (cases "findOne_email L db (b ''email'')")
  case (Some u)
  then show ?thesis using conflict by (simp add: register_def)
next
  case None
  show ?thesis
  proof (cases "User_create L e db (b ''firstName'') (b ''lastName'') (b ''email'') (b ''password'')")
    case (Inl err)
    with None show ?thesis using error by (simp add: register_def)
  next
    case (Inr p)
    obtain u db' where "p = (u, db')" by (cases p)
    with None Inr show ?thesis using created by (simp add: register_def Let_def)
  qed
qed

lemma register_store:
  "snd (register L e db b) = db \<or>
   (\<exists>u. snd (register L e db b) = db @ [u] \<and> role u = ''user'' \<and> set_email (email u) = email u)"
proof (rule register_cases[where L=L and db=db and b=b and e=e])
  fix u db'
  assume "User_create L e db (b ''firstName'') (b ''lastName'') (b ''email'') (b ''password'') = Inr (u, db')"
    and "register L e db b =
         (\<lparr>status = 201,
           json = JObj [(''success'', JBool True), (''token'', JStr (generateAuthToken L e u)),
                        (''user'', public_fields u)]\<rparr>, db')"
  then show ?thesis by (auto simp: User_create_Inr set_email_idem)
qed simp_all

lemma login_store: "snd (login L e db b) = db"
  by (auto simp: login_def Let_def split: option.splits sum.splits bool.splits)

lemma me_store: "snd (me L e db h) = db"
  by (auto simp: me_def split: option.splits sum.splits)

lemma handle_inv: "store_inv db \<Longrightarrow> store_inv (snd (handle L e db rq))"
proof (cases rq)
  case (Register b)
  assume "store_inv db"
  with register_store[of L e db b] Register show ?thesis
    by (auto simp: handle_def store_inv_def)
qed (simp_all add: handle_def login_store me_store)

lemma reachable_inv: "reachable L db \<Longrightarrow> store_inv db"
  by (induction rule: reachable.induct) (simp_all add: store_inv_def handle_inv[unfolded store_inv_def])

subsection \<open>Running the model\<close>

lemmas run_defs =
  handle_def register_def login_def me_def findOne_email_def findById_def User_create_def
  check_required_def check_password_def minlength_message_def error_message_def
  set_name_def set_email_def trim_def toLowerCase_def lower_char_def is_space_def
  pre_save_def comparePassword_def generateAuthToken_def bearer_token_def index_opt_def
  truthy_def failure_def server_error_def public_fields_def findOne_filter_def json_body_def
  Let_def

lemmas demo_defs = demo_libs_def demo_env_def alice_def alice_user_def alice_login_def

lemma demo_register_alice: "snd (handle demo_libs demo_env [] (Register alice)) = [alice_user]"
  by (simp add: run_defs demo_defs)

lemma reachable_alice: "reachable demo_libs [alice_user]"
  using reachable.request[OF reachable.start, of demo_libs demo_env "Register alice"]
  by (simp only: demo_register_alice)

subsection \<open>The shapes a response can take\<close>

lemma register_shape:
  "(\<exists>c m. fst (register L e db b) = failure c m \<and> c \<noteq> 500 \<and> c \<noteq> 201 \<and> c \<noteq> 200) \<or>
   (\<exists>m. fst (register L e db b) = server_error m) \<or>
   (\<exists>t u. fst (register L e db b) =
      \<lparr>status = 201,
       json = JObj [(''success'', JBool True), (''token'', JStr t), (''user'', public_fields u)]\<rparr>)"
  by (rule register_cases[where L=L and db=db and b=b and e=e]) auto

lemma login_shape:
  "(\<exists>c m. fst (login L e db b) = failure c m \<and> c \<noteq> 500 \<and> c \<noteq> 201 \<and> c \<noteq> 200) \<or>
   (\<exists>m. fst (login L e db b) = server_error m) \<or>
   (\<exists>t u. fst (login L e db b) =
      \<lparr>status = 200,
       json = JObj [(''success'', JBool True), (''token'', JStr t), (''user'', public_fields u)]\<rparr>)"
  by (auto simp: login_def Let_def split: option.splits sum.splits bool.splits)

lemma me_shape:
  "(\<exists>c m. fst (me L e db h) = failure c m \<and> c \<noteq> 500 \<and> c \<noteq> 201 \<and> c \<noteq> 200) \<or>
   (\<exists>m. fst (me L e db h) = server_error m) \<or>
   (\<exists>u. fst (me L e db h) =
      \<lparr>status = 200, json = JObj [(''success'', JBool True), (''user'', public_fields u)]\<rparr>)"
  by (auto simp: me_def split: option.splits sum.splits)

subsection \<open>The demo libraries meet the contract\<close>

lemma read_unary_unary: "read_unary (unary n @ s) = Some (n, s)"
proof -
  have d: "dropWhile (\<lambda>c. c = CHR ''1'') (replicate n CHR ''1'' @ CHR ''.'' # s) = CHR ''.'' # s"
    by (induction n) auto
  have t: "takeWhile (\<lambda>c. c = CHR ''1'') (replicate n CHR ''1'' @ CHR ''.'' # s) = replicate n CHR ''1''"
    by (induction n) auto
  show ?thesis by (simp add: read_unary_def unary_def d t)
qed

lemma demo_sign_first: "demo_sign p k d t0 = c # r \<Longrightarrow> c \<noteq> CHR ''!''"
  by (cases "p_id p") (auto simp: demo_sign_def unary_def)

lemma demo_verify_own_sign:
  "demo_verify_own (demo_sign p k d t0) k' t =
     (if k' \<noteq> k then Inl ''invalid signature''
      else if t0 div 1000 + seconds d \<le> t div 1000 then Inl ''jwt expired''
      else Inr \<lparr>c_id = ObjectId (p_id p), c_role = p_role p, c_iat = t0 div 1000,
               c_exp = t0 div 1000 + seconds d\<rparr>)"
  by (auto simp: demo_verify_own_def demo_sign_def read_unary_unary)

lemma demo_verify_sign:
  "demo_verify (demo_sign p k d t0) k' t =
     (if k' \<noteq> k then Inl ''invalid signature''
      else if t0 div 1000 + seconds d \<le> t div 1000 then Inl ''jwt expired''
      else Inr \<lparr>c_id = ObjectId (p_id p), c_role = p_role p, c_iat = t0 div 1000,
               c_exp = t0 div 1000 + seconds d\<rparr>)"
proof (cases "demo_sign p k d t0")
  case Nil
  then show ?thesis by (simp add: demo_sign_def unary_def)
next
  case (Cons c r)
  then have "c \<noteq> CHR ''!''" by (rule demo_sign_first)
  then show ?thesis
    using demo_verify_own_sign[of p k d t0 k' t] by (simp add: demo_verify_def Cons)
qed

lemma demo_verify_foreign: "demo_verify (demo_foreign v k) k t =
     Inr \<lparr>c_id = NotObjectId (JSString v), c_role = [], c_iat = 0, c_exp = 0\<rparr>"
  by (simp add: demo_verify_def demo_foreign_def demo_verify_foreign_def read_unary_unary)


lemma demo_jwt_contract: "jwt_contract demo_libs"
  by (auto simp: jwt_contract_def demo_libs_def demo_verify_sign)



subsection \<open>The bearer token of a header\<close>




subsection \<open>Successful requests\<close>

lemma findOne_email_mem: "findOne_email L db v = Some u \<Longrightarrow> u \<in> set db"
  by (auto simp: findOne_email_def find_Some_iff split: option.splits)

lemma login_200:
  assumes "status (fst (login L e db b)) = 200"
  obtains u pw where "js_truthy (b ''email'')" "b ''password'' = JSString pw" "pw \<noteq> []"
    "findOne_filter L db (b ''email'') = Inr (Some u)" "bcrypt_compare L pw (password u)"
    "fst (login L e db b) =
       \<lparr>status = 200,
        json = JObj [(''success'', JBool True), (''token'', JStr (generateAuthToken L e u)),
                     (''user'', public_fields u)]\<rparr>"
proof -
  from assms have t: "js_truthy (b ''email'')" "js_truthy (b ''password'')"
    by (auto simp: login_def failure_def split: if_splits)
  from assms t obtain u where u: "findOne_filter L db (b ''email'') = Inr (Some u)"
    by (auto simp: login_def failure_def server_error_def split: sum.splits option.splits)
  from assms t u obtain pw where pw: "b ''password'' = JSString pw"
    by (cases "b ''password''")
       (auto simp: login_def comparePassword_def server_error_def)
  from assms t u pw have c: "bcrypt_compare L pw (password u)"
    by (cases "bcrypt_compare L pw (password u)")
       (auto simp: login_def comparePassword_def failure_def)
  from t pw have "pw \<noteq> []" by simp
  moreover from t u pw c have "fst (login L e db b) =
       \<lparr>status = 200,
        json = JObj [(''success'', JBool True), (''token'', JStr (generateAuthToken L e u)),
                     (''user'', public_fields u)]\<rparr>"
    by (simp add: login_def comparePassword_def)
  ultimately show thesis using that t u pw c by blast
qed

lemma findOne_filter_mem: "findOne_filter L db v = Inr (Some u) \<Longrightarrow> u \<in> set db"
  by (cases v)
     (auto simp: findOne_filter_def find_Some_iff dest: findOne_email_mem split: sum.splits)

lemma register_201:
  assumes "status (fst (register L e db b)) = 201"
  obtains u where "findOne_email L db (b ''email'') = None"
    "User_create L e db (b ''firstName'') (b ''lastName'') (b ''email'') (b ''password'')
       = Inr (u, db @ [u])"
    "register L e db b =
       (\<lparr>status = 201,
         json = JObj [(''success'', JBool True), (''token'', JStr (generateAuthToken L e u)),
                      (''user'', public_fields u)]\<rparr>, db @ [u])"
proof (rule register_cases[where L=L and db=db and b=b and e=e])
  fix u assume "register L e db b = (failure 400 ''Email is already registered'', db)"
  with assms show thesis by (simp add: failure_def)
next
  fix err assume "register L e db b = (server_error (error_message L err), db)"
  with assms show thesis by (simp add: server_error_def)
next
  fix u db'
  assume a: "findOne_email L db (b ''email'') = None"
    "User_create L e db (b ''firstName'') (b ''lastName'') (b ''email'') (b ''password'') = Inr (u, db')"
    "register L e db b =
         (\<lparr>status = 201,
           json = JObj [(''success'', JBool True), (''token'', JStr (generateAuthToken L e u)),
                        (''user'', public_fields u)]\<rparr>, db')"
  from a(2) have "db' = db @ [u]" by (auto simp: User_create_Inr)
  with a that show thesis by simp
qed

lemma User_create_short_password:
  assumes "fn = Some f" and "trim f \<noteq> []" and "ln = Some l" and "trim l \<noteq> []"
    and "em = Some m" and "toLowerCase (trim m) \<noteq> []"
    and "pw = Some p" and "p \<noteq> []" and "length p < 5"
  shows "User_create L e db fn ln em pw =
           Inl (ValidationError [(''password'', minlength_message ''password'' p ''5'')])"
  using assms
  by (simp add: User_create_def check_required_def check_password_def set_name_def
      set_email_def)

lemma demo_login_alice: "status (fst (login demo_libs demo_env [alice_user] alice_login)) = 200"
  by (simp add: run_defs demo_defs)

lemma demo_register_alice_status: "status (fst (register demo_libs demo_env [] alice)) = 201"
  by (simp add: run_defs demo_defs)

subsection \<open>The outcomes of a login\<close>

lemma typeof_string: "typeof v = ''string'' \<longleftrightarrow> (\<exists>s. v = JSString s)"
  by (cases v) auto

lemma comparePassword_cases:
  "comparePassword L u v =
     (if typeof v = ''string''
      then Inr (\<exists>pw. v = JSString pw \<and> bcrypt_compare L pw (password u))
      else Inl (''Illegal arguments: '' @ typeof v @ '', string''))"
  by (cases v) (auto simp: comparePassword_def)

lemma login_cases:
  "fst (login L e db b) =
     (if \<not> js_truthy (b ''email'') \<or> \<not> js_truthy (b ''password'')
      then \<lparr>status = 400,
            json = JObj [(''success'', JBool False),
                         (''message'', JStr ''Please provide email and password'')]\<rparr>
      else
        (case findOne_filter L db (b ''email'') of
           Inl msg \<Rightarrow>
             \<lparr>status = 500,
              json = JObj [(''success'', JBool False), (''message'', JStr ''Server error''),
                           (''error'', JStr msg)]\<rparr>
         | Inr None \<Rightarrow>
             \<lparr>status = 401,
              json = JObj [(''success'', JBool False),
                           (''message'', JStr ''Invalid email or password'')]\<rparr>
         | Inr (Some u) \<Rightarrow>
             if typeof (b ''password'') \<noteq> ''string''
             then \<lparr>status = 500,
                   json = JObj [(''success'', JBool False), (''message'', JStr ''Server error''),
                                (''error'', JStr (''Illegal arguments: '' @ typeof (b ''password'')
                                                   @ '', string''))]\<rparr>
             else if \<exists>pw. b ''password'' = JSString pw \<and> bcrypt_compare L pw (password u)
             then \<lparr>status = 200,
                   json = JObj [(''success'', JBool True),
                                (''token'', JStr (generateAuthToken L e u)),
                                (''user'', public_fields u)]\<rparr>
             else \<lparr>status = 401,
                   json = JObj [(''success'', JBool False),
                                (''message'', JStr ''Invalid email or password'')]\<rparr>))"
  by (auto simp: login_def comparePassword_cases failure_def server_error_def
      split: sum.splits option.splits bool.splits)

subsection \<open>What trimming and lower-casing leave\<close>






section \<open>The claims\<close>

subsection \<open>C1: the password and the responses\<close>

text \<open>
  C1 describes what the handlers are written to do (the user object of a response lists
  the five public fields, the schema marks the password \<^verbatim>\<open>select: false\<close>, the comment
  says "Send response without password"), but the \<^verbatim>\<open>catch\<close> branch of registration sends
  \<^verbatim>\<open>error.message\<close> to the client, and the message Mongoose builds for a string below its
  \<^verbatim>\<open>minlength\<close> quotes the rejected value. The theorem runs the code there: a registration
  that is valid but for a password of one to four characters is answered with status 500
  and an \<^verbatim>\<open>error\<close> text that holds the submitted plaintext between backquotes.
\<close>

theorem register_short_password_echoed:
  assumes "b ''firstName'' = Some fn" and "trim fn \<noteq> []"
    and "b ''lastName'' = Some ln" and "trim ln \<noteq> []"
    and "b ''email'' = Some em" and "toLowerCase (trim em) \<noteq> []"
    and "findOne_email L db (b ''email'') = None"
    and "b ''password'' = Some pw" and "pw \<noteq> []" and "length pw < 5"
  shows "register L e db b =
     (\<lparr>status = 500,
       json = JObj [(''success'', JBool False), (''message'', JStr ''Server error''),
                    (''error'', JStr (''User validation failed: password: Path `password` (`''
                       @ pw @ ''`) is shorter than the minimum allowed length (5).''))]\<rparr>,
      db)"
  using User_create_short_password[OF assms(1-6) assms(8-10), of L e db] assms(7)
  by (simp add: register_def server_error_def error_message_def minlength_message_def)

theorem register_short_password_echoed_witness:
  "register demo_libs demo_env []
     (map_of [(''firstName'', ''Ada''), (''lastName'', ''Lovelace''),
              (''email'', ''ada@example.com''), (''password'', ''abc'')]) =
     (\<lparr>status = 500,
       json = JObj [(''success'', JBool False), (''message'', JStr ''Server error''),
                    (''error'', JStr ''User validation failed: password: Path `password` (`abc`) is shorter than the minimum allowed length (5).'')]\<rparr>,
      [])"
proof -
  let ?b = "map_of [(''firstName'', ''Ada''), (''lastName'', ''Lovelace''),
              (''email'', ''ada@example.com''), (''password'', ''abc'')]"
  have h: "?b ''firstName'' = Some ''Ada''" "trim ''Ada'' \<noteq> []"
    "?b ''lastName'' = Some ''Lovelace''" "trim ''Lovelace'' \<noteq> []"
    "?b ''email'' = Some ''ada@example.com''" "toLowerCase (trim ''ada@example.com'') \<noteq> []"
    "findOne_email demo_libs [] (?b ''email'') = None"
    "?b ''password'' = Some ''abc''" "''abc'' \<noteq> []" "length ''abc'' < 5"
    by (simp_all add: trim_def toLowerCase_def is_space_def findOne_email_def)
  show ?thesis
    using register_short_password_echoed[where L=demo_libs and e=demo_env and db="[]", OF h]
    by (simp only: append.simps)
qed

subsection \<open>C2: the token of a login\<close>

text \<open>
  C2. A login answered with status 200 found a stored user for the email, and its token is
  \<^verbatim>\<open>jwt.sign\<close> of that user's id and role under the server secret with \<^verbatim>\<open>expiresIn\<close> of
  30 days. With jsonwebtoken as the contract describes it, verifying that token under the
  server secret gives back the stored user's id and role, issued at the time of the login
  and expiring 2592000 seconds later, at every time before the expiry; from the expiry on
  verification fails.
\<close>

theorem login_token_round_trip:
  assumes "jwt_contract L" and "status (fst (login L e db b)) = 200"
  shows "\<exists>u. u \<in> set db \<and> findOne_filter L db (b ''email'') = Inr (Some u) \<and>
           json (fst (login L e db b)) =
             JObj [(''success'', JBool True),
                   (''token'', JStr (jwt_sign L \<lparr>p_id = uid u, p_role = role u\<rparr> JWT_SECRET
                                      (Days 30) (now e))),
                   (''user'', public_fields u)] \<and>
           (\<forall>t. if t div 1000 < now e div 1000 + 2592000
                then jwt_verify L (jwt_sign L \<lparr>p_id = uid u, p_role = role u\<rparr> JWT_SECRET
                                     (Days 30) (now e)) JWT_SECRET t =
                       Inr \<lparr>c_id = ObjectId (uid u), c_role = role u, c_iat = now e div 1000,
                            c_exp = now e div 1000 + 2592000\<rparr>
                else isl (jwt_verify L (jwt_sign L \<lparr>p_id = uid u, p_role = role u\<rparr> JWT_SECRET
                                          (Days 30) (now e)) JWT_SECRET t))"
proof -
  from assms(2) obtain u where u: "findOne_filter L db (b ''email'') = Inr (Some u)"
    and r: "fst (login L e db b) =
       \<lparr>status = 200,
        json = JObj [(''success'', JBool True), (''token'', JStr (generateAuthToken L e u)),
                     (''user'', public_fields u)]\<rparr>"
    by (rule login_200)
  have v: "\<And>t. if t div 1000 < now e div 1000 + 2592000
                then jwt_verify L (jwt_sign L \<lparr>p_id = uid u, p_role = role u\<rparr> JWT_SECRET
                                     (Days 30) (now e)) JWT_SECRET t =
                       Inr \<lparr>c_id = ObjectId (uid u), c_role = role u, c_iat = now e div 1000,
                            c_exp = now e div 1000 + 2592000\<rparr>
                else isl (jwt_verify L (jwt_sign L \<lparr>p_id = uid u, p_role = role u\<rparr> JWT_SECRET
                                          (Days 30) (now e)) JWT_SECRET t)"
  proof -
    fix t
    show "?thesis t"
      using assms(1)[unfolded jwt_contract_def, rule_format,
          of JWT_SECRET JWT_SECRET t "now e" "Days 30" "\<lparr>p_id = uid u, p_role = role u\<rparr>"]
      by simp
  qed
  show ?thesis
    using u r v findOne_filter_mem[OF u] by (auto simp: generateAuthToken_def)
qed

theorem login_token_round_trip_witness:
  "jwt_contract demo_libs \<and>
   status (fst (login demo_libs demo_env [alice_user]
      (json_body [(''email'', JSString ''ALICE@example.com''),
                  (''password'', JSString ''rabbit-hole'')]))) = 200 \<and>
   jwt_verify demo_libs
      (jwt_sign demo_libs \<lparr>p_id = 1, p_role = ''user''\<rparr> JWT_SECRET (Days 30) 5000)
      JWT_SECRET 86400000 =
     Inr \<lparr>c_id = ObjectId 1, c_role = ''user'', c_iat = 5, c_exp = 2592005\<rparr>"
proof -
  let ?b = "json_body [(''email'', JSString ''ALICE@example.com''),
                       (''password'', JSString ''rabbit-hole'')]"
  have s: "status (fst (login demo_libs demo_env [alice_user] ?b)) = 200"
    using demo_login_alice by (simp add: alice_login_def)
  from login_token_round_trip[OF demo_jwt_contract s]
  obtain u where f: "findOne_filter demo_libs [alice_user] (?b ''email'') = Inr (Some u)"
    and v: "\<forall>t. if t div 1000 < now demo_env div 1000 + 2592000
                then jwt_verify demo_libs (jwt_sign demo_libs \<lparr>p_id = uid u, p_role = role u\<rparr> JWT_SECRET
                                     (Days 30) (now demo_env)) JWT_SECRET t =
                       Inr \<lparr>c_id = ObjectId (uid u), c_role = role u, c_iat = now demo_env div 1000,
                            c_exp = now demo_env div 1000 + 2592000\<rparr>
                else isl (jwt_verify demo_libs (jwt_sign demo_libs \<lparr>p_id = uid u, p_role = role u\<rparr> JWT_SECRET
                                          (Days 30) (now demo_env)) JWT_SECRET t)"
    by blast
  have "u = alice_user" using findOne_filter_mem[OF f] by simp
  with v[rule_format, of 86400000] have
    "jwt_verify demo_libs
      (jwt_sign demo_libs \<lparr>p_id = 1, p_role = ''user''\<rparr> JWT_SECRET (Days 30) 5000)
      JWT_SECRET 86400000 =
     Inr \<lparr>c_id = ObjectId 1, c_role = ''user'', c_iat = 5, c_exp = 2592005\<rparr>"
    by (simp add: alice_user_def demo_env_def)
  then show ?thesis using demo_jwt_contract s by simp
qed

subsection \<open>C3: a taken email is refused\<close>

text \<open>
  C3. In every store the service can reach, a registration request whose email is the
  email of a stored user is answered with status 400, \<^verbatim>\<open>success: false\<close> and the message
  "Email is already registered", and the store stays as it was: no user is created.
\<close>

theorem register_existing_email_conflict:
  assumes "reachable L db" and "u \<in> set db" and "b ''email'' = Some (email u)"
  shows "register L e db b =
           (\<lparr>status = 400,
             json = JObj [(''success'', JBool False),
                          (''message'', JStr ''Email is already registered'')]\<rparr>, db)"
proof -
  have "set_email (email u) = email u"
    using reachable_inv[OF assms(1)] assms(2) by (simp add: store_inv_def)
  then have "findOne_email L db (b ''email'') \<noteq> None"
    using assms(2,3) by (auto simp: findOne_email_def find_None_iff)
  then show ?thesis by (auto simp: register_def failure_def)
qed

theorem register_existing_email_conflict_witness:
  "reachable demo_libs [alice_user] \<and> alice_user \<in> set [alice_user] \<and>
   (map_of [(''email'', ''alice@example.com''), (''password'', ''another'')]) ''email''
     = Some (email alice_user) \<and>
   register demo_libs demo_env [alice_user]
       (map_of [(''email'', ''alice@example.com''), (''password'', ''another'')]) =
     (\<lparr>status = 400,
       json = JObj [(''success'', JBool False),
                    (''message'', JStr ''Email is already registered'')]\<rparr>, [alice_user])"
proof -
  have m: "alice_user \<in> set [alice_user]" by simp
  have k: "(map_of [(''email'', ''alice@example.com''), (''password'', ''another'')]) ''email''
     = Some (email alice_user)" by (simp add: alice_user_def)
  show ?thesis
    using register_existing_email_conflict[where L=demo_libs and db="[alice_user]" and u=alice_user
        and b="map_of [(''email'', ''alice@example.com''), (''password'', ''another'')]"
        and e=demo_env] reachable_alice m k
    by blast
qed

subsection \<open>C4: how a login fails\<close>

text \<open>
  C4, as stated, fails: a login without an email (or without a password) is answered with
  status 400, a bad request, not with the authorization error 401.
\<close>

theorem login_missing_field_counterexample:
  "(json_body [(''password'', JSString ''rabbit-hole'')]) ''email'' = JSUndefined \<and>
   status (fst (login demo_libs demo_env [alice_user]
                  (json_body [(''password'', JSString ''rabbit-hole'')]))) = 400 \<and>
   status (fst (login demo_libs demo_env [alice_user]
                  (json_body [(''password'', JSString ''rabbit-hole'')]))) \<noteq> 401"
  by (simp add: run_defs demo_defs)

text \<open>
  C4, amended. A login is answered
  \<^item> with status 400 and the message "Please provide email and password" exactly when the
    email or the password is falsy: missing, \<^verbatim>\<open>null\<close>, \<^verbatim>\<open>false\<close>, \<^verbatim>\<open>0\<close> or the empty string;
  \<^item> with status 401 and the message "Invalid email or password" exactly when both are
    truthy and either the query finds no user for the email, or it finds one and the
    password is a string that \<^verbatim>\<open>bcrypt.compare\<close> does not match with the stored hash;
  \<^item> with status 500, the message "Server error" and the thrown error's message in
    \<^verbatim>\<open>error\<close> exactly when both are truthy and either the query throws, or it finds a user
    and the password is not a string, which makes \<^verbatim>\<open>bcrypt.compare\<close> reject with
    "Illegal arguments";
  \<^item> with status 200 exactly when the query finds a user and the password is a string that
    matches.
  There is no other status. Every response other than the 200 has \<^verbatim>\<open>success: false\<close> and
  no token; the 200 has \<^verbatim>\<open>success: true\<close> and a token.
\<close>

theorem login_failure_cases:
  "(status (fst (login L e db b)) = 400 \<longleftrightarrow>
      \<not> js_truthy (b ''email'') \<or> \<not> js_truthy (b ''password'')) \<and>
   (status (fst (login L e db b)) = 401 \<longleftrightarrow>
      js_truthy (b ''email'') \<and> js_truthy (b ''password'') \<and>
      (findOne_filter L db (b ''email'') = Inr None \<or>
       (\<exists>u pw. findOne_filter L db (b ''email'') = Inr (Some u) \<and>
               b ''password'' = JSString pw \<and> \<not> bcrypt_compare L pw (password u)))) \<and>
   (status (fst (login L e db b)) = 500 \<longleftrightarrow>
      js_truthy (b ''email'') \<and> js_truthy (b ''password'') \<and>
      ((\<exists>msg. findOne_filter L db (b ''email'') = Inl msg) \<or>
       (\<exists>u. findOne_filter L db (b ''email'') = Inr (Some u) \<and>
            typeof (b ''password'') \<noteq> ''string''))) \<and>
   (status (fst (login L e db b)) = 200 \<longleftrightarrow>
      js_truthy (b ''email'') \<and> js_truthy (b ''password'') \<and>
      (\<exists>u pw. findOne_filter L db (b ''email'') = Inr (Some u) \<and>
              b ''password'' = JSString pw \<and> bcrypt_compare L pw (password u))) \<and>
   status (fst (login L e db b)) \<in> {200, 400, 401, 500} \<and>
   (status (fst (login L e db b)) = 400 \<longrightarrow>
      json (fst (login L e db b)) =
        JObj [(''success'', JBool False),
              (''message'', JStr ''Please provide email and password'')]) \<and>
   (status (fst (login L e db b)) = 401 \<longrightarrow>
      json (fst (login L e db b)) =
        JObj [(''success'', JBool False), (''message'', JStr ''Invalid email or password'')]) \<and>
   (status (fst (login L e db b)) = 500 \<longrightarrow>
      (\<exists>msg. json (fst (login L e db b)) =
               JObj [(''success'', JBool False), (''message'', JStr ''Server error''),
                     (''error'', JStr msg)] \<and>
             (findOne_filter L db (b ''email'') = Inl msg \<or>
              msg = ''Illegal arguments: '' @ typeof (b ''password'') @ '', string''))) \<and>
   (status (fst (login L e db b)) \<noteq> 200 \<longrightarrow>
      field ''success'' (json (fst (login L e db b))) = Some (JBool False) \<and>
      field ''token'' (json (fst (login L e db b))) = None) \<and>
   (status (fst (login L e db b)) = 200 \<longrightarrow>
      field ''success'' (json (fst (login L e db b))) = Some (JBool True) \<and>
      (\<exists>tok. field ''token'' (json (fst (login L e db b))) = Some (JStr tok)))"
proof (cases "\<not> js_truthy (b ''email'') \<or> \<not> js_truthy (b ''password'')")
  case True
  then show ?thesis unfolding login_cases by auto
next
  case False
  show ?thesis
  proof (cases "findOne_filter L db (b ''email'')")
    case (Inl msg)
    with False show ?thesis unfolding login_cases by auto
  next
    case (Inr r)
    show ?thesis
    proof (cases r)
      case None
      with False Inr show ?thesis unfolding login_cases by auto
    next
      case (Some u)
      show ?thesis
      proof (cases "typeof (b ''password'') = ''string''")
        case t: False
        with False Inr Some show ?thesis unfolding login_cases by (auto simp: typeof_string)
      next
        case t: True
        then obtain pw where pw: "b ''password'' = JSString pw" by (auto simp: typeof_string)
        with False Inr Some show ?thesis unfolding login_cases by auto
      qed
    qed
  qed
qed

theorem login_failure_cases_witness:
  "\<not> js_truthy ((json_body [(''email'', JSString ''alice@example.com''),
                              (''password'', JSNumber 0)]) ''password'') \<and>
   status (fst (login demo_libs demo_env [alice_user]
                  (json_body [(''email'', JSString ''alice@example.com''),
                              (''password'', JSNumber 0)]))) = 400 \<and>
   json (fst (login demo_libs demo_env [alice_user]
                (json_body [(''email'', JSString ''alice@example.com''),
                            (''password'', JSNumber 0)]))) =
     JObj [(''success'', JBool False), (''message'', JStr ''Please provide email and password'')] \<and>
   findOne_filter demo_libs [alice_user]
     ((json_body [(''email'', JSString ''bob@example.com''),
                  (''password'', JSString ''rabbit-hole'')]) ''email'') = Inr None \<and>
   status (fst (login demo_libs demo_env [alice_user]
                  (json_body [(''email'', JSString ''bob@example.com''),
                              (''password'', JSString ''rabbit-hole'')]))) = 401 \<and>
   json (fst (login demo_libs demo_env [alice_user]
                (json_body [(''email'', JSString ''bob@example.com''),
                            (''password'', JSString ''rabbit-hole'')]))) =
     JObj [(''success'', JBool False), (''message'', JStr ''Invalid email or password'')] \<and>
   findOne_filter demo_libs [alice_user]
     ((json_body [(''email'', JSString ''alice@example.com''),
                  (''password'', JSNumber 12345)]) ''email'') = Inr (Some alice_user) \<and>
   typeof ((json_body [(''email'', JSString ''alice@example.com''),
                       (''password'', JSNumber 12345)]) ''password'') = ''number'' \<and>
   status (fst (login demo_libs demo_env [alice_user]
                  (json_body [(''email'', JSString ''alice@example.com''),
                              (''password'', JSNumber 12345)]))) = 500 \<and>
   json (fst (login demo_libs demo_env [alice_user]
                (json_body [(''email'', JSString ''alice@example.com''),
                            (''password'', JSNumber 12345)]))) =
     JObj [(''success'', JBool False), (''message'', JStr ''Server error''),
           (''error'', JStr ''Illegal arguments: number, string'')]"
proof -
  let ?b1 = "json_body [(''email'', JSString ''alice@example.com''), (''password'', JSNumber 0)]"
  let ?b2 = "json_body [(''email'', JSString ''bob@example.com''),
                        (''password'', JSString ''rabbit-hole'')]"
  let ?b3 = "json_body [(''email'', JSString ''alice@example.com''),
                        (''password'', JSNumber 12345)]"
  note ev = json_body_def findOne_filter_def findOne_email_def demo_defs set_email_def trim_def
    toLowerCase_def lower_char_def is_space_def
  have h1: "\<not> js_truthy (?b1 ''password'')" by (simp add: json_body_def)
  have h2: "js_truthy (?b2 ''email'')" "js_truthy (?b2 ''password'')"
    "findOne_filter demo_libs [alice_user] (?b2 ''email'') = Inr None"
    by (simp_all add: ev)
  have h3: "js_truthy (?b3 ''email'')" "js_truthy (?b3 ''password'')"
    "findOne_filter demo_libs [alice_user] (?b3 ''email'') = Inr (Some alice_user)"
    "typeof (?b3 ''password'') = ''number''"
    by (simp_all add: ev)
  note t1 = login_failure_cases[of demo_libs demo_env "[alice_user]" ?b1]
  note t2 = login_failure_cases[of demo_libs demo_env "[alice_user]" ?b2]
  note t3 = login_failure_cases[of demo_libs demo_env "[alice_user]" ?b3]
  have s1: "status (fst (login demo_libs demo_env [alice_user] ?b1)) = 400"
    using t1 h1 by blast
  have j1: "json (fst (login demo_libs demo_env [alice_user] ?b1)) =
     JObj [(''success'', JBool False), (''message'', JStr ''Please provide email and password'')]"
    using t1 s1 by blast
  have s2: "status (fst (login demo_libs demo_env [alice_user] ?b2)) = 401"
    using t2 h2 by blast
  have j2: "json (fst (login demo_libs demo_env [alice_user] ?b2)) =
     JObj [(''success'', JBool False), (''message'', JStr ''Invalid email or password'')]"
    using t2 s2 by blast
  have n3: "typeof (?b3 ''password'') \<noteq> ''string''" using h3(4) by simp
  have s3: "status (fst (login demo_libs demo_env [alice_user] ?b3)) = 500"
    using t3 h3(1-3) n3 by blast
  from t3 s3 obtain msg where m: "json (fst (login demo_libs demo_env [alice_user] ?b3)) =
               JObj [(''success'', JBool False), (''message'', JStr ''Server error''),
                     (''error'', JStr msg)]"
    "findOne_filter demo_libs [alice_user] (?b3 ''email'') = Inl msg \<or>
              msg = ''Illegal arguments: '' @ typeof (?b3 ''password'') @ '', string''"
    by blast
  from m(2) h3(3,4) have "msg = ''Illegal arguments: number, string''" by simp
  with m(1) have j3: "json (fst (login demo_libs demo_env [alice_user] ?b3)) =
     JObj [(''success'', JBool False), (''message'', JStr ''Server error''),
           (''error'', JStr ''Illegal arguments: number, string'')]" by simp
  show ?thesis using h1 s1 j1 h2(3) s2 j2 h3(3,4) s3 j3 by blast
qed

subsection \<open>C5: the session lookup\<close>




subsection \<open>C6: a successful registration\<close>

text \<open>
  C6, as stated, fails: an email that is not taken is not enough. A registration without a
  last name fails the schema's validation; it is answered with status 500 and nothing is
  persisted.
\<close>

theorem register_invalid_counterexample:
  "findOne_email demo_libs []
     ((map_of [(''firstName'', ''Ada''), (''email'', ''ada@example.com''),
               (''password'', ''analytical'')]) ''email'') = None \<and>
   register demo_libs demo_env []
     (map_of [(''firstName'', ''Ada''), (''email'', ''ada@example.com''),
              (''password'', ''analytical'')]) =
     (\<lparr>status = 500,
       json = JObj [(''success'', JBool False), (''message'', JStr ''Server error''),
                    (''error'', JStr ''User validation failed: lastName: Please provide your last name'')]\<rparr>,
      [])"
  by (simp add: run_defs demo_defs)

text \<open>
  C6, amended. When the first name and the last name are non-empty after trimming, the
  email is non-empty after trimming and lower-casing, the password has at least five
  characters, no stored user has the email (as submitted or in its stored form) and the
  generated id is new, registration appends one user to the store, with the trimmed names,
  the lower-cased and trimmed email, the role \<^verbatim>\<open>user\<close> and as password
  \<^verbatim>\<open>bcrypt.hash\<close> of the submitted plaintext with cost 10, and answers with status 201,
  \<^verbatim>\<open>success: true\<close>, the token signed for the new user, and a \<^verbatim>\<open>user\<close> object of exactly
  the fields id, firstName, lastName, email and role.
\<close>

theorem register_valid_persists:
  assumes "b ''firstName'' = Some fn" and "trim fn \<noteq> []"
    and "b ''lastName'' = Some ln" and "trim ln \<noteq> []"
    and "b ''email'' = Some em" and "toLowerCase (trim em) \<noteq> []"
    and "b ''password'' = Some pw" and "5 \<le> length pw"
    and "\<forall>u \<in> set db. email u \<noteq> em \<and> email u \<noteq> toLowerCase (trim em)"
    and "\<forall>u \<in> set db. uid u \<noteq> new_id e"
  shows "register L e db b =
    (\<lparr>status = 201,
      json = JObj [(''success'', JBool True),
                   (''token'', JStr (jwt_sign L \<lparr>p_id = new_id e, p_role = ''user''\<rparr> JWT_SECRET
                                      (Days 30) (now e))),
                   (''user'', JObj [(''id'', JOid (new_id e)), (''firstName'', JStr (trim fn)),
                                    (''lastName'', JStr (trim ln)),
                                    (''email'', JStr (toLowerCase (trim em))),
                                    (''role'', JStr ''user'')])]\<rparr>,
     db @ [\<lparr>uid = new_id e, firstName = trim fn, lastName = trim ln,
            email = toLowerCase (trim em), password = bcrypt_hash L pw 10 (salt e),
            role = ''user'', createdAt = now e, updatedAt = now e\<rparr>])"
proof -
  let ?u = "\<lparr>uid = new_id e, firstName = trim fn, lastName = trim ln,
            email = toLowerCase (trim em), password = bcrypt_hash L pw 10 (salt e),
            role = ''user'', createdAt = now e, updatedAt = now e\<rparr>"
  have f: "findOne_email L db (b ''email'') = None"
    using assms(5,9) by (auto simp: findOne_email_def find_None_iff set_email_def)
  have c: "User_create L e db (b ''firstName'') (b ''lastName'') (b ''email'') (b ''password'')
             = Inr (?u, db @ [?u])"
    unfolding User_create_Inr using assms by (auto simp: set_email_def)
  show ?thesis
    by (simp add: register_def f c generateAuthToken_def public_fields_def)
qed

theorem register_valid_persists_witness:
  "alice ''firstName'' = Some '' Alice '' \<and> trim '' Alice '' \<noteq> [] \<and>
   alice ''lastName'' = Some ''Liddell'' \<and> trim ''Liddell'' \<noteq> [] \<and>
   alice ''email'' = Some ''Alice@Example.com'' \<and> toLowerCase (trim ''Alice@Example.com'') \<noteq> [] \<and>
   alice ''password'' = Some ''rabbit-hole'' \<and> 5 \<le> length ''rabbit-hole'' \<and>
   register demo_libs demo_env [] alice =
    (\<lparr>status = 201,
      json = JObj [(''success'', JBool True),
                   (''token'', JStr (jwt_sign demo_libs \<lparr>p_id = 1, p_role = ''user''\<rparr> JWT_SECRET
                                      (Days 30) 5000)),
                   (''user'', JObj [(''id'', JOid 1), (''firstName'', JStr ''Alice''),
                                    (''lastName'', JStr ''Liddell''),
                                    (''email'', JStr ''alice@example.com''),
                                    (''role'', JStr ''user'')])]\<rparr>,
     [\<lparr>uid = 1, firstName = ''Alice'', lastName = ''Liddell'',
       email = ''alice@example.com'', password = bcrypt_hash demo_libs ''rabbit-hole'' 10 ''salt'',
       role = ''user'', createdAt = 5000, updatedAt = 5000\<rparr>])"
proof -
  have h: "alice ''firstName'' = Some '' Alice ''" "trim '' Alice '' \<noteq> []"
    "alice ''lastName'' = Some ''Liddell''" "trim ''Liddell'' \<noteq> []"
    "alice ''email'' = Some ''Alice@Example.com''" "toLowerCase (trim ''Alice@Example.com'') \<noteq> []"
    "alice ''password'' = Some ''rabbit-hole''" "5 \<le> length ''rabbit-hole''"
    by (simp_all add: alice_def trim_def toLowerCase_def is_space_def)
  have v: "trim '' Alice '' = ''Alice''" "trim ''Liddell'' = ''Liddell''"
    "toLowerCase (trim ''Alice@Example.com'') = ''alice@example.com''"
    by (simp_all add: trim_def toLowerCase_def lower_char_def is_space_def)
  have e: "\<forall>u \<in> set ([] :: store). email u \<noteq> ''Alice@Example.com'' \<and>
              email u \<noteq> toLowerCase (trim ''Alice@Example.com'')"
    "\<forall>u \<in> set ([] :: store). uid u \<noteq> new_id demo_env"
    by simp_all
  show ?thesis
    using register_valid_persists[where L=demo_libs and e=demo_env and db="[]", OF h e] h
    by (simp add: v demo_env_def)
qed

subsection \<open>C7: the response envelope\<close>

text \<open>
  C7, as stated, fails: the \<^verbatim>\<open>catch\<close> branch of each handler adds a fourth optional field,
  \<^verbatim>\<open>error\<close>, holding the message of whatever was thrown. A registration that names only
  an email fails validation and is answered from that branch.
\<close>

theorem envelope_counterexample:
  "\<not> envelope [''token'', ''user'', ''message'']
       (json (fst (register demo_libs demo_env [] (map_of [(''email'', ''a@b.c'')]))))"
  by (simp add: run_defs demo_defs envelope_def is_bool_def)

text \<open>
  C7, amended. Every response of the three handlers is an object with a boolean
  \<^verbatim>\<open>success\<close> whose other fields are among \<^verbatim>\<open>token\<close>, \<^verbatim>\<open>user\<close>, \<^verbatim>\<open>message\<close> and
  \<^verbatim>\<open>error\<close>; the field \<^verbatim>\<open>error\<close> is there exactly in the responses with status 500.
\<close>

theorem envelope_with_error:
  "envelope [''token'', ''user'', ''message'', ''error''] (json (fst (handle L e db rq))) \<and>
   (''error'' \<in> set (keys (json (fst (handle L e db rq)))) \<longleftrightarrow>
      status (fst (handle L e db rq)) = 500)"
proof (cases rq)
  case (Register b)
  show ?thesis using register_shape[of L e db b] unfolding Register handle_def request.case
    by (auto simp: envelope_def is_bool_def failure_def server_error_def)
next
  case (Login b)
  show ?thesis using login_shape[of L e db b] unfolding Login handle_def request.case
    by (auto simp: envelope_def is_bool_def failure_def server_error_def)
next
  case (Me h)
  show ?thesis using me_shape[of L e db h] unfolding Me handle_def request.case
    by (auto simp: envelope_def is_bool_def failure_def server_error_def)
qed

theorem envelope_with_error_witness:
  "envelope [''token'', ''user'', ''message'', ''error'']
     (json (fst (handle demo_libs demo_env [] (Register (map_of [(''email'', ''a@b.c'')]))))) \<and>
   (''error'' \<in> set (keys (json (fst (handle demo_libs demo_env []
                                         (Register (map_of [(''email'', ''a@b.c'')])))))) \<longleftrightarrow>
      status (fst (handle demo_libs demo_env [] (Register (map_of [(''email'', ''a@b.c'')])))) = 500)"
  by (rule envelope_with_error)

subsection \<open>C8: who writes to the store\<close>

text \<open>
  C8. Login and \<^verbatim>\<open>/me\<close> leave the user store exactly as they found it, whatever the
  request; registration either leaves it as it was or appends one user to it, so no
  handler changes or removes a stored user.
\<close>

theorem login_me_frame:
  "snd (login L e db b) = db \<and> snd (me L e db h) = db \<and>
   (snd (register L e db b') = db \<or> (\<exists>u. snd (register L e db b') = db @ [u]))"
  using register_store[of L e db b'] by (auto simp: login_store me_store)

theorem login_me_frame_witness:
  "snd (login demo_libs demo_env [alice_user] alice_login) = [alice_user] \<and>
   snd (me demo_libs demo_env [alice_user] (Some ''Bearer abc'')) = [alice_user] \<and>
   (snd (register demo_libs demo_env [alice_user] alice) = [alice_user] \<or>
    (\<exists>u. snd (register demo_libs demo_env [alice_user] alice) = [alice_user] @ [u]))"
  by (rule login_me_frame)

subsection \<open>C9: every registered user has the role user\<close>

text \<open>
  C9. In every store the service can reach, every user has the role \<^verbatim>\<open>user\<close>; and every
  registration answered with status 201, whatever its body holds (a \<^verbatim>\<open>role\<close> field
  included), appends a user with the role \<^verbatim>\<open>user\<close> and reports \<^verbatim>\<open>user.role\<close> as
  \<^verbatim>\<open>user\<close>.
\<close>

theorem registered_role_is_user:
  assumes "reachable L db"
  shows "(\<forall>u \<in> set db. role u = ''user'') \<and>
         (\<forall>e b. status (fst (register L e db b)) = 201 \<longrightarrow>
            (\<exists>u. snd (register L e db b) = db @ [u] \<and> role u = ''user'') \<and>
            Option.bind (field ''user'' (json (fst (register L e db b)))) (field ''role'')
              = Some (JStr ''user''))"
proof (intro conjI allI impI)
  show "\<forall>u \<in> set db. role u = ''user''"
    using reachable_inv[OF assms] by (simp add: store_inv_def)
next
  fix e b assume s: "status (fst (register L e db b)) = 201"
  from s obtain u where
    c: "User_create L e db (b ''firstName'') (b ''lastName'') (b ''email'') (b ''password'')
       = Inr (u, db @ [u])"
    and r: "register L e db b =
       (\<lparr>status = 201,
         json = JObj [(''success'', JBool True), (''token'', JStr (generateAuthToken L e u)),
                      (''user'', public_fields u)]\<rparr>, db @ [u])"
    by (rule register_201)
  have ru: "role u = ''user''" using c by (auto simp: User_create_Inr)
  show "\<exists>u. snd (register L e db b) = db @ [u] \<and> role u = ''user''"
    using r ru by auto
  show "Option.bind (field ''user'' (json (fst (register L e db b)))) (field ''role'')
              = Some (JStr ''user'')"
    using r ru by (simp add: public_fields_def)
qed

theorem registered_role_is_user_witness:
  "reachable demo_libs [] \<and> alice ''role'' = Some ''admin'' \<and>
   status (fst (register demo_libs demo_env [] alice)) = 201 \<and>
   (\<exists>u. snd (register demo_libs demo_env [] alice) = [] @ [u] \<and> role u = ''user'') \<and>
   Option.bind (field ''user'' (json (fst (register demo_libs demo_env [] alice)))) (field ''role'')
     = Some (JStr ''user'') \<and>
   reachable demo_libs [alice_user] \<and> role alice_user = ''user''"
proof -
  have a: "alice ''role'' = Some ''admin''" by (simp add: alice_def)
  have m: "alice_user \<in> set [alice_user]" by simp
  show ?thesis
    using registered_role_is_user[OF reachable.start, of demo_libs]
      registered_role_is_user[OF reachable_alice] demo_register_alice_status
      reachable.start[of demo_libs] reachable_alice a m
    by blast
qed

subsection \<open>C10: the persisted email and the email of the duplicate check\<close>



end
